theory Spec2Isabelle
  imports Complex_Main
begin

section \<open>Values exchanged with the remote CRM API\<close>

text \<open>
  The handlers of \<^verbatim>\<open>apo_wrapper.py\<close> read and build JSON values: the parsed body of a
  remote response, the body sent with an update, the payload returned to the caller.
  A Python \<^verbatim>\<open>dict\<close> keeps its keys in insertion order, so an object is an association
  list; a well-formed one has distinct keys, and a lookup takes the first binding.
\<close>

datatype json =
    JNull
  | JBool bool
  | JInt int
  | JFloat real
  | JStr string
  | JArr "json list"
  | JObj "(string \<times> json) list"

type_synonym dict = "(string \<times> json) list"

text \<open>Python's truth value of a parsed JSON value, as tested by \<^verbatim>\<open>if v\<close> and \<^verbatim>\<open>a or b\<close>.\<close>

fun truthy :: "json \<Rightarrow> bool" where
  "truthy JNull = False"
| "truthy (JBool b) = b"
| "truthy (JInt i) = (i \<noteq> 0)"
| "truthy (JFloat r) = (r \<noteq> 0)"
| "truthy (JStr s) = (s \<noteq> [])"
| "truthy (JArr xs) = (xs \<noteq> [])"
| "truthy (JObj d) = (d \<noteq> [])"

text \<open>The truth value of an \<^verbatim>\<open>Optional[str]\<close> field: \<^verbatim>\<open>None\<close> and \<^verbatim>\<open>""\<close> are false.\<close>

fun truthy_str :: "string option \<Rightarrow> bool" where
  "truthy_str None = False"
| "truthy_str (Some s) = (s \<noteq> [])"

fun type_name :: "json \<Rightarrow> string" where
  "type_name JNull = ''NoneType''"
| "type_name (JBool b) = ''bool''"
| "type_name (JInt i) = ''int''"
| "type_name (JFloat r) = ''float''"
| "type_name (JStr s) = ''str''"
| "type_name (JArr xs) = ''list''"
| "type_name (JObj d) = ''dict''"

text \<open>
  \<^verbatim>\<open>d.get(k, default)\<close> on a dict. On any other parsed value the attribute \<^verbatim>\<open>get\<close> does
  not exist and Python raises \<^verbatim>\<open>AttributeError\<close>; the left injection carries \<^verbatim>\<open>str(e)\<close>.
\<close>

definition dict_get :: "dict \<Rightarrow> string \<Rightarrow> json \<Rightarrow> json" where
  "dict_get d k dflt = (case map_of d k of None \<Rightarrow> dflt | Some v \<Rightarrow> v)"

fun py_get :: "json \<Rightarrow> string \<Rightarrow> json \<Rightarrow> string + json" where
  "py_get (JObj d) k dflt = Inr (dict_get d k dflt)"
| "py_get v k dflt = Inl ([CHR 0x27] @ type_name v @ [CHR 0x27] @ '' object has no attribute '' @ [CHR 0x27] @ ''get'' @ [CHR 0x27])"

text \<open>Sequencing of steps that may raise: the first exception ends the computation.\<close>

fun and_then :: "string + 'a \<Rightarrow> ('a \<Rightarrow> string + 'b) \<Rightarrow> string + 'b" where
  "and_then (Inl e) f = Inl e"
| "and_then (Inr x) f = f x"

section \<open>Request models\<close>

text \<open>
  The two pydantic models. \<^verbatim>\<open>email\<close> of a create request and \<^verbatim>\<open>contact_id\<close> of an update
  request are of type \<^verbatim>\<open>str\<close>; every other field is \<^verbatim>\<open>Optional[str]\<close>.
\<close>

record CreateContactRequest =
  email :: string
  first_name :: "string option"
  last_name :: "string option"
  title :: "string option"
  company :: "string option"
  phone :: "string option"

text \<open>
  Field names are global in a theory, so the fields \<^verbatim>\<open>email\<close>, \<^verbatim>\<open>title\<close> and \<^verbatim>\<open>phone\<close> of
  the update model carry the prefix \<open>upd_\<close>.
\<close>

record UpdateContactRequest =
  contact_id :: string
  upd_email :: "string option"
  upd_title :: "string option"
  upd_phone :: "string option"
  linkedin_url :: "string option"

text \<open>
  Construction of a model from keyword arguments, \<^verbatim>\<open>CreateContactRequest(**params)\<close>.
  The declarations give the schema: \<^verbatim>\<open>Field(...)\<close> makes a field required, a \<^verbatim>\<open>str\<close> field
  takes a string, an \<^verbatim>\<open>Optional[str]\<close> field takes a string or \<^verbatim>\<open>None\<close> and falls back to
  its default when the key is missing; keys that are not fields are ignored. No
  declaration constrains the length of a string. \<^verbatim>\<open>None\<close> as a result of the validation
  stands for pydantic's \<^verbatim>\<open>ValidationError\<close>.

  The source pins pydantic 2.5.2, whose constructor is
  \<^verbatim>\<open>BaseModel.__init__(__pydantic_self__, **data)\<close>: its first parameter can be bound by
  keyword, so keyword arguments with the key \<^verbatim>\<open>__pydantic_self__\<close> make the call itself raise
  \<^verbatim>\<open>TypeError\<close> before any validation. The left injection names the exception raised.
\<close>

definition required_str :: "dict \<Rightarrow> string \<Rightarrow> string option" where
  "required_str kw k = (case map_of kw k of Some (JStr s) \<Rightarrow> Some s | _ \<Rightarrow> None)"

definition optional_str :: "dict \<Rightarrow> string \<Rightarrow> string option \<Rightarrow> string option option" where
  "optional_str kw k dflt =
     (case map_of kw k of
        None \<Rightarrow> Some dflt
      | Some JNull \<Rightarrow> Some None
      | Some (JStr s) \<Rightarrow> Some (Some s)
      | Some _ \<Rightarrow> None)"

definition CreateContactRequest_validate :: "dict \<Rightarrow> CreateContactRequest option" where
  "CreateContactRequest_validate kw =
     Option.bind (required_str kw ''email'') (\<lambda>e.
     Option.bind (optional_str kw ''first_name'' (Some [])) (\<lambda>fnm.
     Option.bind (optional_str kw ''last_name'' (Some [])) (\<lambda>lnm.
     Option.bind (optional_str kw ''title'' (Some [])) (\<lambda>t.
     Option.bind (optional_str kw ''company'' (Some [])) (\<lambda>c.
     Option.bind (optional_str kw ''phone'' (Some [])) (\<lambda>p.
       Some \<lparr>email = e, first_name = fnm, last_name = lnm, title = t, company = c, phone = p\<rparr>))))))"

definition UpdateContactRequest_validate :: "dict \<Rightarrow> UpdateContactRequest option" where
  "UpdateContactRequest_validate kw =
     Option.bind (required_str kw ''contact_id'') (\<lambda>i.
     Option.bind (optional_str kw ''email'' None) (\<lambda>e.
     Option.bind (optional_str kw ''title'' None) (\<lambda>t.
     Option.bind (optional_str kw ''phone'' None) (\<lambda>p.
     Option.bind (optional_str kw ''linkedin_url'' None) (\<lambda>l.
       Some \<lparr>contact_id = i, upd_email = e, upd_title = t, upd_phone = p, linkedin_url = l\<rparr>)))))"

definition CreateContactRequest_init :: "dict \<Rightarrow> string + CreateContactRequest" where
  "CreateContactRequest_init kw =
     (if map_of kw ''__pydantic_self__'' \<noteq> None then Inl ''TypeError''
      else case CreateContactRequest_validate kw of
             None \<Rightarrow> Inl ''ValidationError''
           | Some request \<Rightarrow> Inr request)"

definition UpdateContactRequest_init :: "dict \<Rightarrow> string + UpdateContactRequest" where
  "UpdateContactRequest_init kw =
     (if map_of kw ''__pydantic_self__'' \<noteq> None then Inl ''TypeError''
      else case UpdateContactRequest_validate kw of
             None \<Rightarrow> Inl ''ValidationError''
           | Some request \<Rightarrow> Inr request)"

section \<open>The outbound side\<close>

text \<open>
  One outbound call is the method, the URL, the headers, the JSON body (if any) and the
  timeout in seconds handed to the HTTP client. What comes back is either a response
  (status code, body text, and what \<^verbatim>\<open>response.json()\<close> gives: the parsed value, or the
  message of the exception it raises on a malformed body) or an exception raised by the
  client itself (connection failure, timeout), carried as its \<^verbatim>\<open>str(e)\<close>.
\<close>

record http_request =
  http_method :: string
  url :: string
  headers :: "(string \<times> string) list"
  json_body :: "json option"
  timeout :: nat

record http_response =
  status_code :: int
  response_text :: string
  response_json :: "string + json"

datatype http_outcome = Response http_response | Raises string

text \<open>
  The environment of a handler: the API key read once at start-up, and the remote side,
  which answers every outbound call.
\<close>

record env =
  API_TOKEN :: string
  send :: "http_request \<Rightarrow> http_outcome"

text \<open>
  What a handler does for its caller: it returns a payload, raises \<^verbatim>\<open>HTTPException\<close> with
  a status code and a detail message, or lets another exception escape (named by its
  class). Every handler is paired with the list of outbound calls it made, in order.
\<close>

datatype 'a result = Return 'a | HTTPException int string | Uncaught string

definition BASE_URL :: string where
  "BASE_URL = ''https://api.apollo.io/api/v1''"

subsection \<open>Percent-encoding of a query value\<close>

text \<open>
  \<^verbatim>\<open>urllib.parse.quote\<close> with its default \<^verbatim>\<open>safe='/'\<close>: letters, digits, \<^verbatim>\<open>_.-~\<close> and \<^verbatim>\<open>/\<close>
  are kept, every other byte of the UTF-8 encoding becomes \<^verbatim>\<open>%XX\<close> in upper-case hex.
  A \<^typ>\<open>string\<close> here is the UTF-8 byte sequence of the Python string.
\<close>

definition always_safe :: "char set" where
  "always_safe = set (''ABCDEFGHIJKLMNOPQRSTUVWXYZ'' @ ''abcdefghijklmnopqrstuvwxyz'' @ ''0123456789'' @ ''_.-~'')"

definition hex_digit :: "nat \<Rightarrow> char" where
  "hex_digit n = ''0123456789ABCDEF'' ! (n mod 16)"

definition quote_char :: "char \<Rightarrow> string" where
  "quote_char c =
     (if c \<in> always_safe \<or> c = CHR ''/'' then [c]
      else [CHR ''%'', hex_digit (of_char c div 16), hex_digit (of_char c mod 16)])"

definition quote :: "string \<Rightarrow> string" where
  "quote s = concat (map quote_char s)"

fun join :: "string \<Rightarrow> string list \<Rightarrow> string" where
  "join sep [] = []"
| "join sep [x] = x"
| "join sep (x # y # ys) = x @ sep @ join sep (y # ys)"

subsection \<open>\<^verbatim>\<open>make_apollo_request\<close>\<close>

definition build_url :: "string \<Rightarrow> (string \<times> string option) list option \<Rightarrow> string" where
  "build_url endpoint query_params =
     (let url0 = BASE_URL @ endpoint in
      case query_params of
        None \<Rightarrow> url0
      | Some qp \<Rightarrow>
          if qp = [] then url0
          else
            let params = concat (map (\<lambda>(key, v).
                           case v of None \<Rightarrow> []
                           | Some s \<Rightarrow> if s = [] then [] else [key @ ''='' @ quote s]) qp)
            in if params = [] then url0 else url0 @ ''?'' @ join ''&'' params)"

definition is_success :: "http_response \<Rightarrow> bool" where
  "is_success r = (200 \<le> status_code r \<and> status_code r \<le> 299)"

definition make_apollo_request ::
  "env \<Rightarrow> string \<Rightarrow> string \<Rightarrow> (string \<times> string option) list option \<Rightarrow> json option
     \<Rightarrow> http_request list \<times> json result" where
  "make_apollo_request e method endpoint query_params body_data =
     (let hs = [(''Content-Type'', ''application/json''),
                (''Cache-Control'', ''no-cache''),
                (''x-api-key'', API_TOKEN e)];
          u = build_url endpoint query_params
      in
      if method = ''GET'' \<or> method = ''POST'' \<or> method = ''PUT'' then
        let req = \<lparr>http_method = method, url = u, headers = hs,
                   json_body = (if method = ''GET'' then None else body_data),
                   timeout = 30\<rparr>
        in ([req],
            case send e req of
              Raises msg \<Rightarrow> HTTPException 500 msg
            | Response r \<Rightarrow>
                if is_success r then
                  (case response_json r of
                     Inl msg \<Rightarrow> HTTPException 500 msg
                   | Inr data \<Rightarrow> Return data)
                else HTTPException (status_code r) (''Apollo API error: '' @ response_text r))
      else ([], HTTPException 500 (''Unsupported method: '' @ method)))"

section \<open>The endpoints\<close>

subsection \<open>\<^verbatim>\<open>GET /api/status\<close>\<close>

definition status_error :: "string \<Rightarrow> json" where
  "status_error msg = JObj [(''apollo_status'', JStr ''error''), (''error'', JStr msg)]"

definition check_status :: "env \<Rightarrow> http_request list \<times> json result" where
  "check_status e =
     (let req = \<lparr>http_method = ''GET'', url = BASE_URL @ ''/auth/health'',
                 headers = [(''x-api-key'', API_TOKEN e)], json_body = None, timeout = 10\<rparr>
      in ([req],
          case send e req of
            Raises msg \<Rightarrow> Return (status_error msg)
          | Response r \<Rightarrow>
              if status_code r = 200 then
                (case and_then (response_json r) (\<lambda>j. py_get j ''is_logged_in'' (JBool False)) of
                   Inl msg \<Rightarrow> Return (status_error msg)
                 | Inr flag \<Rightarrow>
                     Return (JObj [(''apollo_status'', JStr ''connected''),
                                   (''status_code'', JInt (status_code r)),
                                   (''is_logged_in'', flag)]))
              else
                Return (JObj [(''apollo_status'', JStr ''error''),
                              (''status_code'', JInt (status_code r)),
                              (''is_logged_in'', JBool False)])))"

subsection \<open>\<^verbatim>\<open>POST /api/create-contact\<close>\<close>

text \<open>
  The query parameters of a create call (lines 148 to 158 of the source): the six fields
  under their remote names, without the entries whose value is false.
\<close>

definition create_query_params :: "CreateContactRequest \<Rightarrow> (string \<times> string option) list" where
  "create_query_params request =
     filter (\<lambda>(k, v). truthy_str v)
       [(''email'', Some (email request)),
        (''first_name'', first_name request),
        (''last_name'', last_name request),
        (''title'', title request),
        (''organization_name'', company request),
        (''direct_phone'', phone request)]"

definition create_contact :: "env \<Rightarrow> CreateContactRequest \<Rightarrow> http_request list \<times> json result" where
  "create_contact e request =
     (let query_params = create_query_params request;
          (calls, res) = make_apollo_request e ''POST'' ''/contacts'' (Some query_params) None
      in (calls,
          case res of
            HTTPException c d \<Rightarrow> HTTPException c d
          | Uncaught x \<Rightarrow> Uncaught x
          | Return data \<Rightarrow>
              (case
                 and_then (py_get data ''contact'' (JObj [])) (\<lambda>contact.
                 and_then (py_get contact ''id'' JNull) (\<lambda>cid.
                 and_then (py_get contact ''name'' JNull) (\<lambda>nm.
                 and_then (py_get contact ''email'' JNull) (\<lambda>em.
                 and_then (py_get contact ''title'' JNull) (\<lambda>ti.
                 and_then (and_then (py_get contact ''organization_name'' JNull) (\<lambda>org.
                             if truthy org then Inr org
                             else and_then (py_get contact ''account'' (JObj [])) (\<lambda>account.
                                    py_get account ''name'' JNull))) (\<lambda>co.
                 Inr (JObj [(''success'', JBool True),
                            (''contact_id'', cid),
                            (''name'', nm),
                            (''email'', em),
                            (''title'', ti),
                            (''company'', co),
                            (''raw_response'', contact)])))))))
               of Inl msg \<Rightarrow> HTTPException 500 msg
                | Inr payload \<Rightarrow> Return payload)))"

subsection \<open>\<^verbatim>\<open>PUT /api/update-contact\<close>\<close>

text \<open>
  The body of an update (lines 184 to 192 of the source): a key is stored for each field
  that is true, in this order, and \<^verbatim>\<open>phone\<close> is stored under \<^verbatim>\<open>direct_phone\<close>.
\<close>

fun set_if :: "string \<Rightarrow> string option \<Rightarrow> dict \<Rightarrow> dict" where
  "set_if k None body = body"
| "set_if k (Some s) body = (if s \<noteq> [] then body @ [(k, JStr s)] else body)"

definition update_body :: "UpdateContactRequest \<Rightarrow> dict" where
  "update_body request =
     (let body0 = [];
          body1 = set_if ''email'' (upd_email request) body0;
          body2 = set_if ''title'' (upd_title request) body1;
          body3 = set_if ''direct_phone'' (upd_phone request) body2
      in set_if ''linkedin_url'' (linkedin_url request) body3)"

definition update_contact :: "env \<Rightarrow> UpdateContactRequest \<Rightarrow> http_request list \<times> json result" where
  "update_contact e request =
     (let body_data = update_body request in
      if body_data = [] then ([], HTTPException 400 ''No fields to update'')
      else
        let endpoint = ''/contacts/'' @ contact_id request;
            (calls, res) = make_apollo_request e ''PUT'' endpoint None (Some (JObj body_data))
        in (calls,
            case res of
              HTTPException c d \<Rightarrow> HTTPException c d
            | Uncaught x \<Rightarrow> Uncaught x
            | Return data \<Rightarrow>
                (case
                   and_then (py_get data ''contact'' (JObj [])) (\<lambda>contact.
                   and_then (py_get contact ''id'' JNull) (\<lambda>cid.
                   Inr (JObj [(''success'', JBool True),
                              (''contact_id'', cid),
                              (''updated_fields'', JArr (map (\<lambda>(k, v). JStr k) body_data)),
                              (''raw_response'', contact)])))
                 of Inl msg \<Rightarrow> HTTPException 500 msg
                  | Inr payload \<Rightarrow> Return payload)))"

subsection \<open>\<^verbatim>\<open>POST /webhook/n8n\<close>\<close>

text \<open>
  \<^verbatim>\<open>Model(**x)\<close>: unpacking needs a mapping, anything else raises \<^verbatim>\<open>TypeError\<close>; for a
  mapping the constructor raises what the model's construction above says. No exception
  is caught by the webhook.
\<close>

definition unknown_action :: json where
  "unknown_action =
     JObj [(''error'', JStr ''Unknown action''),
           (''available'', JArr [JStr ''create_contact'', JStr ''update_contact'', JStr ''status''])]"

definition n8n_webhook :: "env \<Rightarrow> dict \<Rightarrow> http_request list \<times> json result" where
  "n8n_webhook e data =
     (let action = map_of data ''action'' in
      if action = Some (JStr ''create_contact'') then
        (case dict_get data ''params'' (JObj []) of
           JObj kw \<Rightarrow>
             (case CreateContactRequest_init kw of
                Inl x \<Rightarrow> ([], Uncaught x)
              | Inr request \<Rightarrow> create_contact e request)
         | _ \<Rightarrow> ([], Uncaught ''TypeError''))
      else if action = Some (JStr ''update_contact'') then
        (case dict_get data ''params'' (JObj []) of
           JObj kw \<Rightarrow>
             (case UpdateContactRequest_init kw of
                Inl x \<Rightarrow> ([], Uncaught x)
              | Inr request \<Rightarrow> update_contact e request)
         | _ \<Rightarrow> ([], Uncaught ''TypeError''))
      else if action = Some (JStr ''status'') then check_status e
      else ([], Return unknown_action))"

section \<open>Observations and sample inputs\<close>

text \<open>The value a returned payload holds under a key; nothing when the handler raised.\<close>

fun response_field :: "json result \<Rightarrow> string \<Rightarrow> json option" where
  "response_field (Return (JObj d)) k = map_of d k"
| "response_field r k = None"

text \<open>A remote side that answers every outbound call in the same way.\<close>

definition always :: "http_outcome \<Rightarrow> env" where
  "always out = \<lparr>API_TOKEN = ''test-key'', send = (\<lambda>req. out)\<rparr>"

definition ok_json :: "json \<Rightarrow> http_outcome" where
  "ok_json j = Response \<lparr>status_code = 200, response_text = [], response_json = Inr j\<rparr>"

text \<open>The remote contact of the specification's example, and variants of it.\<close>

definition jane :: dict where
  "jane = [(''id'', JStr ''123''), (''name'', JStr ''Jane Doe''), (''email'', JStr ''j@x.com'')]"

definition jane_null_account :: dict where
  "jane_null_account = jane @ [(''account'', JNull)]"

definition create_jane :: CreateContactRequest where
  "create_jane = \<lparr>email = ''j@x.com'', first_name = Some ''Jane'', last_name = Some ''Doe'',
                    title = Some [], company = Some [], phone = Some []\<rparr>"

definition create_empty_email :: CreateContactRequest where
  "create_empty_email = \<lparr>email = [], first_name = Some ''Jane'', last_name = Some ''Doe'',
                           title = Some [], company = Some [], phone = Some []\<rparr>"

definition update_phone_only :: UpdateContactRequest where
  "update_phone_only = \<lparr>contact_id = ''123'', upd_email = None, upd_title = None,
                          upd_phone = Some ''555-0100'', linkedin_url = None\<rparr>"

definition update_nothing :: UpdateContactRequest where
  "update_nothing = \<lparr>contact_id = ''123'', upd_email = None, upd_title = None,
                       upd_phone = None, linkedin_url = None\<rparr>"

definition update_all_empty :: UpdateContactRequest where
  "update_all_empty = \<lparr>contact_id = ''123'', upd_email = Some [], upd_title = Some [],
                         upd_phone = Some [], linkedin_url = Some []\<rparr>"

text \<open>The remote 422 of the specification, with the body text \<^verbatim>\<open>{"error": "invalid email"}\<close>.\<close>

definition invalid_email_text :: string where
  "invalid_email_text =
     ''{'' @ [CHR 0x22] @ ''error'' @ [CHR 0x22] @ '': '' @ [CHR 0x22] @ ''invalid email'' @ [CHR 0x22] @ ''}''"

definition response_422 :: http_response where
  "response_422 = \<lparr>status_code = 422, response_text = invalid_email_text,
                           response_json = Inr (JObj [(''error'', JStr ''invalid email'')])\<rparr>"

text \<open>A remote side that does not answer in time, and one whose contact has an account.\<close>

definition timeout_remote :: env where
  "timeout_remote = always (Raises ''timed out'')"

definition jane_remote :: env where
  "jane_remote = always (ok_json (JObj [(''contact'', JObj jane)]))"

definition acme_contact :: dict where
  "acme_contact = [(''id'', JStr ''124''), (''organization_name'', JStr []),
                   (''account'', JObj [(''name'', JStr ''Acme'')])]"

definition update_title_blank_email :: UpdateContactRequest where
  "update_title_blank_email = \<lparr>contact_id = ''123'', upd_email = Some [], upd_title = Some ''CTO'',
                          upd_phone = None, linkedin_url = None\<rparr>"

text \<open>
  An update request with its empty-string fields made absent: what the request would be
  had the caller left those fields out.
\<close>

fun blank_to_absent :: "string option \<Rightarrow> string option" where
  "blank_to_absent None = None"
| "blank_to_absent (Some s) = (if s = [] then None else Some s)"

definition drop_blanks :: "UpdateContactRequest \<Rightarrow> UpdateContactRequest" where
  "drop_blanks r = r\<lparr>upd_email := blank_to_absent (upd_email r), upd_title := blank_to_absent (upd_title r),
       upd_phone := blank_to_absent (upd_phone r), linkedin_url := blank_to_absent (linkedin_url r)\<rparr>"

section \<open>Facts about the helpers\<close>

lemmas sample_defs =
  jane_remote_def always_def ok_json_def jane_def jane_null_account_def create_jane_def
  create_empty_email_def update_phone_only_def update_nothing_def update_all_empty_def
  invalid_email_text_def response_422_def acme_contact_def timeout_remote_def
  update_title_blank_email_def

lemmas handler_defs =
  create_contact_def update_contact_def check_status_def make_apollo_request_def
  create_query_params_def update_body_def build_url_def is_success_def dict_get_def
  status_error_def BASE_URL_def Let_def

subsection \<open>Reading parsed values\<close>

lemma dict_get_Nil: "dict_get [] k dflt = dflt"
  by (simp add: dict_get_def)

lemma and_then_Inr_iff: "and_then m f = Inr y \<longleftrightarrow> (\<exists>x. m = Inr x \<and> f x = Inr y)"
  by (cases m) auto

lemma py_get_Inr_iff: "py_get v k dflt = Inr x \<longleftrightarrow> (\<exists>d. v = JObj d \<and> x = dict_get d k dflt)"
  by (cases v) auto

lemma py_get_non_object: "(\<forall>d. v \<noteq> JObj d) \<Longrightarrow> \<exists>msg. \<forall>k dflt. py_get v k dflt = Inl msg"
  by (cases v) auto

lemma last_step_Return:
  "(case and_then x (\<lambda>co. Inr (g co)) of Inl msg \<Rightarrow> HTTPException 500 msg | Inr p \<Rightarrow> Return p) = Return payload
   \<Longrightarrow> \<exists>co. payload = g co"
  by (cases x) auto

lemma required_str_missing: "map_of kw k = None \<Longrightarrow> required_str kw k = None"
  by (simp add: required_str_def)

lemma init_reserved_key:
  "map_of kw ''__pydantic_self__'' \<noteq> None \<Longrightarrow> CreateContactRequest_init kw = Inl ''TypeError''"
  by (simp add: CreateContactRequest_init_def)

subsection \<open>The one outbound call of \<^verbatim>\<open>make_apollo_request\<close>\<close>

lemma request_sent_fst:
  "m = ''POST'' \<or> m = ''PUT'' \<Longrightarrow>
   fst (make_apollo_request e m ep qp b) =
     [\<lparr>http_method = m, url = build_url ep qp,
       headers = [(''Content-Type'', ''application/json''), (''Cache-Control'', ''no-cache''),
                  (''x-api-key'', API_TOKEN e)],
       json_body = b, timeout = 30\<rparr>]"
  by (auto simp: make_apollo_request_def Let_def)

lemma request_sent_snd:
  assumes "m = ''POST'' \<or> m = ''PUT''" and "fst (make_apollo_request e m ep qp b) = [c]"
  shows "snd (make_apollo_request e m ep qp b) =
     (case send e c of
        Raises msg \<Rightarrow> HTTPException 500 msg
      | Response r \<Rightarrow>
          if is_success r then
            (case response_json r of Inl msg \<Rightarrow> HTTPException 500 msg | Inr data \<Rightarrow> Return data)
          else HTTPException (status_code r) (''Apollo API error: '' @ response_text r))"
  using assms by (auto simp: make_apollo_request_def Let_def)

subsection \<open>The body of an update\<close>

lemma update_body_absent:
  "upd_email r = None \<Longrightarrow> upd_title r = None \<Longrightarrow> upd_phone r = None \<Longrightarrow> linkedin_url r = None
   \<Longrightarrow> update_body r = []"
  by (simp add: update_body_def)

lemma set_if_falsy: "\<not> truthy_str v \<Longrightarrow> set_if k v body = body"
  by (cases v) auto

lemma set_if_blank: "set_if k (blank_to_absent v) body = set_if k v body"
  by (cases v) auto

lemma update_body_drop_blanks: "update_body (drop_blanks r) = update_body r"
  by (simp add: update_body_def drop_blanks_def set_if_blank)

lemma update_body_keys:
  "fst ` set (update_body r) =
     (if truthy_str (upd_email r) then {''email''} else {}) \<union>
     (if truthy_str (upd_title r) then {''title''} else {}) \<union>
     (if truthy_str (upd_phone r) then {''direct_phone''} else {}) \<union>
     (if truthy_str (linkedin_url r) then {''linkedin_url''} else {})"
  by (cases "upd_email r"; cases "upd_title r"; cases "upd_phone r"; cases "linkedin_url r")
     (auto simp: update_body_def)

lemma update_body_phone_only:
  "upd_email r = None \<Longrightarrow> upd_title r = None \<Longrightarrow> linkedin_url r = None \<Longrightarrow> upd_phone r = Some p
   \<Longrightarrow> update_body r = (if p = [] then [] else [(''direct_phone'', JStr p)])"
  by (simp add: update_body_def)

subsection \<open>The two halves of \<^verbatim>\<open>update_contact\<close>\<close>

lemma update_contact_fst:
  "update_body r \<noteq> [] \<Longrightarrow>
   fst (update_contact e r) =
     fst (make_apollo_request e ''PUT'' (''/contacts/'' @ contact_id r) None (Some (JObj (update_body r))))"
  by (simp add: update_contact_def Let_def split: prod.splits)

lemma update_contact_snd:
  "update_body r \<noteq> [] \<Longrightarrow>
   snd (update_contact e r) =
     (case snd (make_apollo_request e ''PUT'' (''/contacts/'' @ contact_id r) None (Some (JObj (update_body r)))) of
        HTTPException c d \<Rightarrow> HTTPException c d
      | Uncaught x \<Rightarrow> Uncaught x
      | Return data \<Rightarrow>
          (case and_then (py_get data ''contact'' (JObj [])) (\<lambda>contact.
                and_then (py_get contact ''id'' JNull) (\<lambda>cid.
                Inr (JObj [(''success'', JBool True), (''contact_id'', cid),
                           (''updated_fields'', JArr (map (\<lambda>(k, v). JStr k) (update_body r))),
                           (''raw_response'', contact)])))
           of Inl msg \<Rightarrow> HTTPException 500 msg | Inr payload \<Rightarrow> Return payload))"
  by (simp add: update_contact_def Let_def split: prod.splits)

lemma update_contact_rejects: "update_body r = [] \<Longrightarrow> update_contact e r = ([], HTTPException 400 ''No fields to update'')"
  by (simp add: update_contact_def)

lemma update_contact_payload:
  assumes "snd (update_contact e r) = Return payload"
  shows "update_body r \<noteq> [] \<and>
         response_field (Return payload) ''updated_fields'' = Some (JArr (map (\<lambda>(k, v). JStr k) (update_body r)))"
proof -
  have ne: "update_body r \<noteq> []"
    using assms by (auto simp: update_contact_rejects)
  from assms show ?thesis
    unfolding update_contact_snd [OF ne]
    by (auto simp: ne and_then_Inr_iff py_get_Inr_iff split: result.splits sum.splits)
qed

lemma update_contact_call:
  assumes "update_body r \<noteq> []"
  shows "\<exists>c. fst (update_contact e r) = [c] \<and> json_body c = Some (JObj (update_body r))"
  by (simp add: update_contact_fst [OF assms] request_sent_fst)

lemma update_contact_calls_body:
  "\<forall>c \<in> set (fst (update_contact e r)). json_body c = Some (JObj (update_body r))"
proof (cases "update_body r = []")
  case True
  then show ?thesis by (simp add: update_contact_rejects)
next
  case False
  from update_contact_call [OF this, of e] show ?thesis by auto
qed


subsection \<open>The two halves of \<^verbatim>\<open>create_contact\<close>\<close>

lemma create_contact_fst:
  "fst (create_contact e r) =
     fst (make_apollo_request e ''POST'' ''/contacts''
            (Some (create_query_params r)) None)"
  by (simp add: create_contact_def Let_def split: prod.splits)

lemma create_contact_snd:
  "snd (create_contact e r) =
     (case snd (make_apollo_request e ''POST'' ''/contacts''
            (Some (create_query_params r)) None) of
        HTTPException c d \<Rightarrow> HTTPException c d
      | Uncaught x \<Rightarrow> Uncaught x
      | Return data \<Rightarrow>
          (case
             and_then (py_get data ''contact'' (JObj [])) (\<lambda>contact.
             and_then (py_get contact ''id'' JNull) (\<lambda>cid.
             and_then (py_get contact ''name'' JNull) (\<lambda>nm.
             and_then (py_get contact ''email'' JNull) (\<lambda>em.
             and_then (py_get contact ''title'' JNull) (\<lambda>ti.
             and_then (and_then (py_get contact ''organization_name'' JNull) (\<lambda>org.
                         if truthy org then Inr org
                         else and_then (py_get contact ''account'' (JObj [])) (\<lambda>account.
                                py_get account ''name'' JNull))) (\<lambda>co.
             Inr (JObj [(''success'', JBool True), (''contact_id'', cid), (''name'', nm),
                        (''email'', em), (''title'', ti), (''company'', co),
                        (''raw_response'', contact)])))))))
           of Inl msg \<Rightarrow> HTTPException 500 msg
            | Inr payload \<Rightarrow> Return payload))"
  by (simp add: create_contact_def Let_def split: prod.splits)

lemma create_contact_call: "\<exists>c. fst (create_contact e r) = [c]"
  by (simp add: create_contact_fst request_sent_fst)

lemma create_contact_outcome:
  assumes "fst (create_contact e r) = [c]"
  shows "snd (make_apollo_request e ''POST'' ''/contacts''
            (Some (create_query_params r)) None) =
     (case send e c of
        Raises msg \<Rightarrow> HTTPException 500 msg
      | Response r \<Rightarrow>
          if is_success r then
            (case response_json r of Inl msg \<Rightarrow> HTTPException 500 msg | Inr data \<Rightarrow> Return data)
          else HTTPException (status_code r) (''Apollo API error: '' @ response_text r))"
  using assms unfolding create_contact_fst by (rule request_sent_snd [rotated]) simp

lemma create_contact_success:
  assumes "fst (create_contact e r) = [c]" and "send e c = Response resp" and "is_success resp"
    and "response_json resp = Inr data"
  shows "snd (create_contact e r) =
          (case
             and_then (py_get data ''contact'' (JObj [])) (\<lambda>contact.
             and_then (py_get contact ''id'' JNull) (\<lambda>cid.
             and_then (py_get contact ''name'' JNull) (\<lambda>nm.
             and_then (py_get contact ''email'' JNull) (\<lambda>em.
             and_then (py_get contact ''title'' JNull) (\<lambda>ti.
             and_then (and_then (py_get contact ''organization_name'' JNull) (\<lambda>org.
                         if truthy org then Inr org
                         else and_then (py_get contact ''account'' (JObj [])) (\<lambda>account.
                                py_get account ''name'' JNull))) (\<lambda>co.
             Inr (JObj [(''success'', JBool True), (''contact_id'', cid), (''name'', nm),
                        (''email'', em), (''title'', ti), (''company'', co),
                        (''raw_response'', contact)])))))))
           of Inl msg \<Rightarrow> HTTPException 500 msg
            | Inr payload \<Rightarrow> Return payload)"
  using create_contact_outcome [OF assms(1)] assms(2-4)
  by (simp add: create_contact_snd)

lemma create_contact_Return:
  assumes "fst (create_contact e r) = [c]" and "snd (create_contact e r) = Return payload"
  shows "\<exists>resp data. send e c = Response resp \<and> is_success resp \<and> response_json resp = Inr data"
  using create_contact_outcome [OF assms(1)] assms(2)
  by (auto simp: create_contact_snd split: http_outcome.splits if_splits sum.splits)

section \<open>Updating only the phone number\<close>

text \<open>
  C1 (as the code has it). When \<^verbatim>\<open>phone\<close> is the only optional field of an update request
  and the update succeeds, the outbound body is \<^verbatim>\<open>{"direct_phone": p}\<close> and the payload's
  \<^verbatim>\<open>updated_fields\<close> is the list of the keys of that body, \<^verbatim>\<open>["direct_phone"]\<close>: the
  field is reported under its outbound name.
\<close>

theorem update_only_phone_reports_direct_phone:
  assumes "upd_email r = None" and "upd_title r = None" and "linkedin_url r = None"
    and "upd_phone r = Some p"
    and "snd (update_contact e r) = Return payload"
  shows "response_field (Return payload) ''updated_fields'' = Some (JArr [JStr ''direct_phone''])
       \<and> (\<exists>c. fst (update_contact e r) = [c] \<and> json_body c = Some (JObj [(''direct_phone'', JStr p)]))"
proof -
  note body = update_body_phone_only [OF assms(1-4)]
  from update_contact_payload [OF assms(5)]
  have ne: "update_body r \<noteq> []"
    and uf: "response_field (Return payload) ''updated_fields'' = Some (JArr (map (\<lambda>(k, v). JStr k) (update_body r)))"
    by simp_all
  from ne body have b: "update_body r = [(''direct_phone'', JStr p)]"
    by (simp split: if_splits)
  from update_contact_call [OF ne, of e] b uf show ?thesis by simp
qed

text \<open>
  C1, witness: the phone-only request against a remote side that answers with Jane.
\<close>

theorem update_only_phone_reports_direct_phone_witness:
  "upd_email update_phone_only = None \<and> upd_title update_phone_only = None
   \<and> linkedin_url update_phone_only = None \<and> upd_phone update_phone_only = Some ''555-0100''
   \<and> snd (update_contact jane_remote update_phone_only)
        = Return (JObj [(''success'', JBool True), (''contact_id'', JStr ''123''),
                        (''updated_fields'', JArr [JStr ''direct_phone'']),
                        (''raw_response'', JObj jane)])
   \<and> response_field (Return (JObj [(''success'', JBool True), (''contact_id'', JStr ''123''),
                        (''updated_fields'', JArr [JStr ''direct_phone'']),
                        (''raw_response'', JObj jane)])) ''updated_fields''
        = Some (JArr [JStr ''direct_phone''])
   \<and> (\<exists>c. fst (update_contact jane_remote update_phone_only) = [c]
          \<and> json_body c = Some (JObj [(''direct_phone'', JStr ''555-0100'')]))"
proof -
  have h: "upd_email update_phone_only = None" "upd_title update_phone_only = None"
    "linkedin_url update_phone_only = None" "upd_phone update_phone_only = Some ''555-0100''"
    by (simp_all add: update_phone_only_def)
  have s: "snd (update_contact jane_remote update_phone_only)
        = Return (JObj [(''success'', JBool True), (''contact_id'', JStr ''123''),
                        (''updated_fields'', JArr [JStr ''direct_phone'']),
                        (''raw_response'', JObj jane)])"
    by (simp add: sample_defs handler_defs)
  from update_only_phone_reports_direct_phone [OF h s] h s show ?thesis by simp
qed

text \<open>
  C1, as stated, fails: for the phone-only request the successful payload lists
  \<^verbatim>\<open>direct_phone\<close>, not \<^verbatim>\<open>phone\<close>.
\<close>

theorem update_only_phone_reports_phone_counterexample:
  "response_field (snd (update_contact jane_remote update_phone_only)) ''success'' = Some (JBool True)
   \<and> response_field (snd (update_contact jane_remote update_phone_only)) ''updated_fields''
        = Some (JArr [JStr ''direct_phone''])
   \<and> response_field (snd (update_contact jane_remote update_phone_only)) ''updated_fields''
        \<noteq> Some (JArr [JStr ''phone''])"
  by (simp add: sample_defs handler_defs)

section \<open>A create request without an email, and one with an empty email\<close>

text \<open>
  C2 (as the code has it). The schema requires the key \<^verbatim>\<open>email\<close> and nothing more: for keyword
  arguments without it the construction of the request raises (\<^verbatim>\<open>ValidationError\<close>, or
  \<^verbatim>\<open>TypeError\<close> when they carry the key \<^verbatim>\<open>__pydantic_self__\<close>), and the webhook's create action
  then lets that exception escape with an empty list of outbound calls. A request whose
  email is the empty string is a request like any other: \<^verbatim>\<open>create_contact\<close> makes its one
  \<^verbatim>\<open>POST\<close>, and the empty email is dropped from the query parameters.
\<close>

theorem create_missing_email_rejected:
  "(map_of kw ''email'' = None \<longrightarrow>
      CreateContactRequest_init kw
        = Inl (if map_of kw ''__pydantic_self__'' = None then ''ValidationError'' else ''TypeError'')
      \<and> (map_of data ''action'' = Some (JStr ''create_contact'') \<and> map_of data ''params'' = Some (JObj kw)
           \<longrightarrow> n8n_webhook e data
                = ([], Uncaught (if map_of kw ''__pydantic_self__'' = None
                                 then ''ValidationError'' else ''TypeError''))))
   \<and> (email r = [] \<longrightarrow>
        ''email'' \<notin> fst ` set (create_query_params r)
        \<and> (\<exists>c. fst (create_contact e r) = [c] \<and> http_method c = ''POST''
                 \<and> url c = build_url ''/contacts'' (Some (create_query_params r))))"
proof (intro conjI impI)
  assume m: "map_of kw ''email'' = None"
  then have v: "CreateContactRequest_validate kw = None"
    by (simp add: CreateContactRequest_validate_def required_str_missing)
  then show i: "CreateContactRequest_init kw
        = Inl (if map_of kw ''__pydantic_self__'' = None then ''ValidationError'' else ''TypeError'')"
    by (simp add: CreateContactRequest_init_def)
  assume "map_of data ''action'' = Some (JStr ''create_contact'') \<and> map_of data ''params'' = Some (JObj kw)"
  with i show "n8n_webhook e data
                = ([], Uncaught (if map_of kw ''__pydantic_self__'' = None
                                 then ''ValidationError'' else ''TypeError''))"
    by (simp add: n8n_webhook_def dict_get_def)
next
  assume "email r = []"
  then show "''email'' \<notin> fst ` set (create_query_params r)"
    by (auto simp: create_query_params_def)
next
  show "\<exists>c. fst (create_contact e r) = [c] \<and> http_method c = ''POST''
                 \<and> url c = build_url ''/contacts'' (Some (create_query_params r))"
    by (simp add: create_contact_fst request_sent_fst)
qed

text \<open>
  C2, witness: keyword arguments with a first name only, keyword arguments with the key
  \<^verbatim>\<open>__pydantic_self__\<close> only, and the request with the empty email.
\<close>

theorem create_missing_email_rejected_witness:
  "map_of [(''first_name'', JStr ''Jane'')] ''email'' = None
   \<and> CreateContactRequest_init [(''first_name'', JStr ''Jane'')] = Inl ''ValidationError''
   \<and> n8n_webhook jane_remote [(''action'', JStr ''create_contact''),
                               (''params'', JObj [(''first_name'', JStr ''Jane'')])]
        = ([], Uncaught ''ValidationError'')
   \<and> map_of [(''__pydantic_self__'', JInt 1)] ''email'' = None
   \<and> n8n_webhook jane_remote [(''action'', JStr ''create_contact''),
                               (''params'', JObj [(''__pydantic_self__'', JInt 1)])]
        = ([], Uncaught ''TypeError'')
   \<and> email create_empty_email = []
   \<and> ''email'' \<notin> fst ` set (create_query_params create_empty_email)
   \<and> (\<exists>c. fst (create_contact jane_remote create_empty_email) = [c] \<and> http_method c = ''POST''
            \<and> url c = build_url ''/contacts'' (Some (create_query_params create_empty_email)))"
proof -
  let ?kw = "[(''first_name'', JStr ''Jane'')]"
  let ?kw' = "[(''__pydantic_self__'', JInt 1)]"
  let ?data = "[(''action'', JStr ''create_contact''), (''params'', JObj ?kw)]"
  let ?data' = "[(''action'', JStr ''create_contact''), (''params'', JObj ?kw')]"
  have h: "map_of ?kw ''email'' = None"
    "map_of ?data ''action'' = Some (JStr ''create_contact'')"
    "map_of ?data ''params'' = Some (JObj ?kw)"
    "email create_empty_email = []"
    "map_of ?kw ''__pydantic_self__'' = None"
    by (simp_all add: create_empty_email_def)
  have h': "map_of ?kw' ''email'' = None"
    "map_of ?data' ''action'' = Some (JStr ''create_contact'')"
    "map_of ?data' ''params'' = Some (JObj ?kw')"
    "map_of ?kw' ''__pydantic_self__'' \<noteq> None"
    by simp_all
  note t = create_missing_email_rejected [of ?kw ?data jane_remote create_empty_email]
  note t' = create_missing_email_rejected [of ?kw' ?data' jane_remote create_empty_email]
  from t h have 1: "CreateContactRequest_init ?kw = Inl ''ValidationError''"
    "n8n_webhook jane_remote ?data = ([], Uncaught ''ValidationError'')"
    by simp_all
  from t' h' have 2: "n8n_webhook jane_remote ?data' = ([], Uncaught ''TypeError'')"
    by simp
  from t h(4) have 3: "''email'' \<notin> fst ` set (create_query_params create_empty_email)"
    "\<exists>c. fst (create_contact jane_remote create_empty_email) = [c] \<and> http_method c = ''POST''
            \<and> url c = build_url ''/contacts'' (Some (create_query_params create_empty_email))"
    by blast+
  show ?thesis
    by (intro conjI h(1) 1 h'(1) 2 h(4) 3)
qed

text \<open>
  C2, as stated, fails: the schema accepts the empty email, and \<^verbatim>\<open>create_contact\<close> sends a
  \<^verbatim>\<open>POST\<close> to the contacts resource and returns a success payload.
\<close>

theorem create_empty_email_rejected_counterexample:
  "email create_empty_email = []
   \<and> CreateContactRequest_init [(''email'', JStr []), (''first_name'', JStr ''Jane''), (''last_name'', JStr ''Doe'')]
        = Inr create_empty_email
   \<and> fst (create_contact jane_remote create_empty_email)
        = [\<lparr>http_method = ''POST'',
             url = ''https://api.apollo.io/api/v1/contacts?first_name=Jane&last_name=Doe'',
             headers = [(''Content-Type'', ''application/json''), (''Cache-Control'', ''no-cache''),
                        (''x-api-key'', ''test-key'')],
             json_body = None, timeout = 30\<rparr>]
   \<and> response_field (snd (create_contact jane_remote create_empty_email)) ''success'' = Some (JBool True)"
  by (simp add: sample_defs handler_defs CreateContactRequest_init_def CreateContactRequest_validate_def
        required_str_def optional_str_def quote_def quote_char_def always_safe_def)

section \<open>Remote HTTP errors\<close>



section \<open>Validation failures of the update operation\<close>

text \<open>
  C4. An update request in which \<^verbatim>\<open>email\<close>, \<^verbatim>\<open>title\<close>, \<^verbatim>\<open>phone\<close> and \<^verbatim>\<open>linkedin_url\<close> are all
  absent fails with status 400, and the list of outbound calls is empty: the failure comes
  before any call to the remote API.
\<close>

theorem update_without_fields_rejected:
  assumes "upd_email r = None" and "upd_title r = None" and "upd_phone r = None" and "linkedin_url r = None"
  shows "update_contact e r = ([], HTTPException 400 ''No fields to update'')"
  using assms by (simp add: update_contact_rejects update_body_absent)

text \<open>
  C4, witness: the request that names a contact and no field.
\<close>

theorem update_without_fields_rejected_witness:
  "upd_email update_nothing = None \<and> upd_title update_nothing = None \<and> upd_phone update_nothing = None
   \<and> linkedin_url update_nothing = None
   \<and> update_contact (always (ok_json (JObj [(''contact'', JObj jane)]))) update_nothing
       = ([], HTTPException 400 ''No fields to update'')"
proof -
  have h: "upd_email update_nothing = None" "upd_title update_nothing = None"
    "upd_phone update_nothing = None" "linkedin_url update_nothing = None"
    by (simp_all add: update_nothing_def)
  show ?thesis
    using h update_without_fields_rejected [OF h, of "always (ok_json (JObj [(''contact'', JObj jane)]))"]
    by simp
qed

section \<open>What a successful create returns\<close>

text \<open>
  C5 (as the code has it). When a create succeeds, the remote side answered with a JSON
  object, and \<^verbatim>\<open>raw_response\<close> is what that object holds under \<^verbatim>\<open>contact\<close>, unchanged (an
  empty object when the key is missing): the nested contact, not the enclosing payload.
\<close>

theorem create_raw_response_is_contact:
  assumes "fst (create_contact e r) = [c]" and "snd (create_contact e r) = Return payload"
  shows "\<exists>resp d. send e c = Response resp \<and> is_success resp \<and> response_json resp = Inr (JObj d)
           \<and> response_field (Return payload) ''raw_response'' = Some (dict_get d ''contact'' (JObj []))"
proof -
  from create_contact_Return [OF assms] obtain resp data
    where r: "send e c = Response resp" "is_success resp" "response_json resp = Inr data"
    by blast
  note eq = assms(2) [unfolded create_contact_success [OF assms(1) r]]
  have "\<exists>d. data = JObj d"
  proof (rule ccontr)
    assume "\<not> (\<exists>d. data = JObj d)"
    then obtain msg where "\<forall>k dflt. py_get data k dflt = Inl msg"
      using py_get_non_object by blast
    with eq show False by simp
  qed
  then obtain d where d: "data = JObj d" ..
  have "\<exists>cd. dict_get d ''contact'' (JObj []) = JObj cd"
  proof (rule ccontr)
    assume "\<not> (\<exists>cd. dict_get d ''contact'' (JObj []) = JObj cd)"
    then obtain msg where "\<forall>k dflt. py_get (dict_get d ''contact'' (JObj [])) k dflt = Inl msg"
      using py_get_non_object by blast
    with eq show False by (simp add: d)
  qed
  then obtain cd where cd: "dict_get d ''contact'' (JObj []) = JObj cd" ..
  from eq have "\<exists>co. payload = JObj [(''success'', JBool True), (''contact_id'', dict_get cd ''id'' JNull),
                        (''name'', dict_get cd ''name'' JNull), (''email'', dict_get cd ''email'' JNull),
                        (''title'', dict_get cd ''title'' JNull), (''company'', co),
                        (''raw_response'', JObj cd)]"
    unfolding d by (simp add: cd) (erule last_step_Return)
  then have "response_field (Return payload) ''raw_response'' = Some (JObj cd)"
    by auto
  with r d cd show ?thesis by simp
qed

text \<open>
  C5, witness: the specification's example.
\<close>

theorem create_raw_response_is_contact_witness:
  "snd (create_contact jane_remote create_jane) =
      Return (JObj [(''success'', JBool True), (''contact_id'', JStr ''123''), (''name'', JStr ''Jane Doe''),
                    (''email'', JStr ''j@x.com''), (''title'', JNull), (''company'', JNull),
                    (''raw_response'', JObj jane)])
   \<and> response_field (snd (create_contact jane_remote create_jane)) ''raw_response''
        = Some (dict_get [(''contact'', JObj jane)] ''contact'' (JObj []))"
proof -
  let ?p = "JObj [(''success'', JBool True), (''contact_id'', JStr ''123''), (''name'', JStr ''Jane Doe''),
                    (''email'', JStr ''j@x.com''), (''title'', JNull), (''company'', JNull),
                    (''raw_response'', JObj jane)]"
  have s: "snd (create_contact jane_remote create_jane) = Return ?p"
    by (simp add: sample_defs handler_defs)
  obtain c where c: "fst (create_contact jane_remote create_jane) = [c]"
    using create_contact_call by blast
  from create_raw_response_is_contact [OF c s] obtain resp d
    where "send jane_remote c = Response resp" and "response_json resp = Inr (JObj d)"
      and f: "response_field (Return ?p) ''raw_response'' = Some (dict_get d ''contact'' (JObj []))"
    by blast
  then have "d = [(''contact'', JObj jane)]"
    by (auto simp: jane_remote_def always_def ok_json_def)
  with f s show ?thesis by simp
qed

text \<open>
  C5, as stated, fails: for the remote payload \<^verbatim>\<open>{"contact": jane}\<close> the field
  \<^verbatim>\<open>raw_response\<close> is \<^verbatim>\<open>jane\<close>, not the payload.
\<close>

theorem create_raw_response_full_payload_counterexample:
  "response_field (snd (create_contact (always (ok_json (JObj [(''contact'', JObj jane)]))) create_jane))
       ''raw_response'' = Some (JObj jane)
   \<and> response_field (snd (create_contact (always (ok_json (JObj [(''contact'', JObj jane)]))) create_jane))
       ''raw_response'' \<noteq> Some (JObj [(''contact'', JObj jane)])"
  by (simp add: sample_defs handler_defs)

text \<open>
  C6 (as the code has it). When the remote side answers a create with a 2xx status and an
  object whose \<^verbatim>\<open>contact\<close> is an object, and the contact's \<^verbatim>\<open>account\<close> is absent or an object
  wherever it is consulted, the create returns \<^verbatim>\<open>success\<close> true, with \<^verbatim>\<open>contact_id\<close>, \<^verbatim>\<open>name\<close>,
  \<^verbatim>\<open>email\<close> and \<^verbatim>\<open>title\<close> read from the contact (null where the key is missing). \<^verbatim>\<open>company\<close> is
  the contact's \<^verbatim>\<open>organization_name\<close> when that is true in Python's sense, and otherwise
  the \<^verbatim>\<open>name\<close> of the account (null without account or name).
\<close>

theorem create_extracts_contact_fields:
  assumes "fst (create_contact e r) = [c]" and "send e c = Response resp" and "is_success resp"
    and "response_json resp = Inr (JObj d)" and "map_of d ''contact'' = Some (JObj contact)"
    and "truthy (dict_get contact ''organization_name'' JNull)
         \<or> dict_get contact ''account'' (JObj []) = JObj account"
  shows "snd (create_contact e r) =
           Return (JObj [(''success'', JBool True),
                         (''contact_id'', dict_get contact ''id'' JNull),
                         (''name'', dict_get contact ''name'' JNull),
                         (''email'', dict_get contact ''email'' JNull),
                         (''title'', dict_get contact ''title'' JNull),
                         (''company'',
                            if truthy (dict_get contact ''organization_name'' JNull)
                            then dict_get contact ''organization_name'' JNull
                            else dict_get account ''name'' JNull),
                         (''raw_response'', JObj contact)])"
proof -
  have c: "dict_get d ''contact'' (JObj []) = JObj contact"
    using assms(5) by (simp add: dict_get_def)
  show ?thesis
    unfolding create_contact_success [OF assms(1-4)]
    using assms(6) by (auto simp: c)
qed

text \<open>
  C6, witness: the specification's example, and a contact whose company comes from its account.
\<close>

theorem create_extracts_contact_fields_witness:
  "snd (create_contact jane_remote create_jane) =
      Return (JObj [(''success'', JBool True), (''contact_id'', JStr ''123''), (''name'', JStr ''Jane Doe''),
                    (''email'', JStr ''j@x.com''), (''title'', JNull), (''company'', JNull),
                    (''raw_response'', JObj jane)])
   \<and> snd (create_contact (always (ok_json (JObj [(''contact'', JObj acme_contact)]))) create_jane) =
      Return (JObj [(''success'', JBool True), (''contact_id'', JStr ''124''), (''name'', JNull),
                    (''email'', JNull), (''title'', JNull), (''company'', JStr ''Acme''),
                    (''raw_response'', JObj acme_contact)])"
proof -
  let ?E = "always (ok_json (JObj [(''contact'', JObj acme_contact)]))"
  let ?ok = "\<lambda>j. \<lparr>status_code = 200, response_text = [], response_json = Inr j\<rparr>"
  obtain c where c: "fst (create_contact jane_remote create_jane) = [c]"
    using create_contact_call by blast
  obtain c' where c': "fst (create_contact ?E create_jane) = [c']"
    using create_contact_call by blast
  have 1: "snd (create_contact jane_remote create_jane) =
            Return (JObj [(''success'', JBool True),
                         (''contact_id'', dict_get jane ''id'' JNull),
                         (''name'', dict_get jane ''name'' JNull),
                         (''email'', dict_get jane ''email'' JNull),
                         (''title'', dict_get jane ''title'' JNull),
                         (''company'',
                            if truthy (dict_get jane ''organization_name'' JNull)
                            then dict_get jane ''organization_name'' JNull
                            else dict_get [] ''name'' JNull),
                         (''raw_response'', JObj jane)])"
    by (rule create_extracts_contact_fields [OF c, of "?ok (JObj [(''contact'', JObj jane)])" "[(''contact'', JObj jane)]"])
       (simp_all add: jane_remote_def always_def ok_json_def is_success_def dict_get_def jane_def)
  have 2: "snd (create_contact ?E create_jane) =
            Return (JObj [(''success'', JBool True),
                         (''contact_id'', dict_get acme_contact ''id'' JNull),
                         (''name'', dict_get acme_contact ''name'' JNull),
                         (''email'', dict_get acme_contact ''email'' JNull),
                         (''title'', dict_get acme_contact ''title'' JNull),
                         (''company'',
                            if truthy (dict_get acme_contact ''organization_name'' JNull)
                            then dict_get acme_contact ''organization_name'' JNull
                            else dict_get [(''name'', JStr ''Acme'')] ''name'' JNull),
                         (''raw_response'', JObj acme_contact)])"
    by (rule create_extracts_contact_fields [OF c', of "?ok (JObj [(''contact'', JObj acme_contact)])" "[(''contact'', JObj acme_contact)]"])
       (simp_all add: always_def ok_json_def is_success_def dict_get_def acme_contact_def)
  from 1 2 show ?thesis
    by (simp add: dict_get_def jane_def acme_contact_def)
qed

text \<open>
  C6, as stated, fails in two ways. A contact whose \<^verbatim>\<open>organization_name\<close> is present but
  empty gets its company from the account, not from the direct field. And a contact of
  the stated form whose \<^verbatim>\<open>account\<close> is null makes the create raise a 500 instead of
  returning \<^verbatim>\<open>success\<close> true.
\<close>

theorem create_extracts_contact_fields_counterexample:
  "map_of acme_contact ''organization_name'' = Some (JStr [])
   \<and> response_field (snd (create_contact (always (ok_json (JObj [(''contact'', JObj acme_contact)]))) create_jane))
         ''company'' = Some (JStr ''Acme'')
   \<and> snd (create_contact (always (ok_json (JObj [(''contact'', JObj jane_null_account)]))) create_jane)
     = HTTPException 500
         ([CHR 0x27] @ ''NoneType'' @ [CHR 0x27] @ '' object has no attribute '' @ [CHR 0x27] @ ''get'' @ [CHR 0x27])
   \<and> response_field (snd (create_contact (always (ok_json (JObj [(''contact'', JObj jane_null_account)]))) create_jane))
         ''success'' \<noteq> Some (JBool True)"
  by (simp add: sample_defs handler_defs)

text \<open>
  C10 (as the code has it). The extraction tolerates a missing key: when the remote side
  answers a create with a 2xx status and a JSON object without the key \<^verbatim>\<open>contact\<close>, the
  create still returns \<^verbatim>\<open>success\<close> true; the five extracted fields are null and
  \<^verbatim>\<open>raw_response\<close> is the empty object.
\<close>

theorem create_without_contact_key:
  assumes "fst (create_contact e r) = [c]" and "send e c = Response resp" and "is_success resp"
    and "response_json resp = Inr (JObj d)" and "map_of d ''contact'' = None"
  shows "snd (create_contact e r) =
           Return (JObj [(''success'', JBool True), (''contact_id'', JNull), (''name'', JNull),
                         (''email'', JNull), (''title'', JNull), (''company'', JNull),
                         (''raw_response'', JObj [])])"
proof -
  have c: "dict_get d ''contact'' (JObj []) = JObj []"
    using assms(5) by (simp add: dict_get_def)
  show ?thesis
    unfolding create_contact_success [OF assms(1-4)]
    by (simp add: c dict_get_Nil)
qed

text \<open>
  C10, witness: the remote payload \<^verbatim>\<open>{"status": "ok"}\<close>.
\<close>

theorem create_without_contact_key_witness:
  "map_of [(''status'', JStr ''ok'')] ''contact'' = None
   \<and> snd (create_contact (always (ok_json (JObj [(''status'', JStr ''ok'')]))) create_jane) =
           Return (JObj [(''success'', JBool True), (''contact_id'', JNull), (''name'', JNull),
                         (''email'', JNull), (''title'', JNull), (''company'', JNull),
                         (''raw_response'', JObj [])])"
proof -
  let ?E = "always (ok_json (JObj [(''status'', JStr ''ok'')]))"
  obtain c where c: "fst (create_contact ?E create_jane) = [c]"
    using create_contact_call by blast
  have "snd (create_contact ?E create_jane) =
           Return (JObj [(''success'', JBool True), (''contact_id'', JNull), (''name'', JNull),
                         (''email'', JNull), (''title'', JNull), (''company'', JNull),
                         (''raw_response'', JObj [])])"
    by (rule create_without_contact_key [OF c, of "\<lparr>status_code = 200, response_text = [], response_json = Inr (JObj [(''status'', JStr ''ok'')])\<rparr>" "[(''status'', JStr ''ok'')]"])
       (simp_all add: always_def ok_json_def is_success_def)
  then show ?thesis by simp
qed

text \<open>
  C10, as stated, fails: the extraction is not total in the shape of the remote payload.
  A payload whose \<^verbatim>\<open>contact\<close> is null, and a payload that is an array, both make the create
  raise a 500 instead of returning \<^verbatim>\<open>success\<close> true.
\<close>

theorem create_extraction_total_counterexample:
  "snd (create_contact (always (ok_json (JObj [(''contact'', JNull)]))) create_jane)
     = HTTPException 500
         ([CHR 0x27] @ ''NoneType'' @ [CHR 0x27] @ '' object has no attribute '' @ [CHR 0x27] @ ''get'' @ [CHR 0x27])
   \<and> response_field (snd (create_contact (always (ok_json (JObj [(''contact'', JNull)]))) create_jane))
         ''success'' \<noteq> Some (JBool True)
   \<and> snd (create_contact (always (ok_json (JArr []))) create_jane)
     = HTTPException 500
         ([CHR 0x27] @ ''list'' @ [CHR 0x27] @ '' object has no attribute '' @ [CHR 0x27] @ ''get'' @ [CHR 0x27])"
  by (simp add: sample_defs handler_defs)

section \<open>The status check\<close>

text \<open>
  C7. \<^verbatim>\<open>check_status\<close> makes one outbound call and returns a payload whatever the outcome
  of that call. An exception of the client, a body that does not parse and a parsed body
  that is no object all end in the payload \<^verbatim>\<open>{"apollo_status": "error", "error": msg}\<close>; a
  status code other than 200 gives the error status with that code; a 200 with an object
  gives \<^verbatim>\<open>connected\<close> with the login flag.
\<close>

theorem check_status_never_raises:
  "\<exists>c payload. check_status e = ([c], Return payload)
     \<and> (\<forall>msg. send e c = Raises msg \<longrightarrow> payload = status_error msg)
     \<and> (\<forall>resp msg. send e c = Response resp \<and> status_code resp = 200 \<and> response_json resp = Inl msg
           \<longrightarrow> payload = status_error msg)
     \<and> (\<forall>resp j msg. send e c = Response resp \<and> status_code resp = 200 \<and> response_json resp = Inr j
            \<and> py_get j ''is_logged_in'' (JBool False) = Inl msg
           \<longrightarrow> payload = status_error msg)
     \<and> (\<forall>resp j flag. send e c = Response resp \<and> status_code resp = 200 \<and> response_json resp = Inr j
            \<and> py_get j ''is_logged_in'' (JBool False) = Inr flag
           \<longrightarrow> payload = JObj [(''apollo_status'', JStr ''connected''), (''status_code'', JInt 200),
                              (''is_logged_in'', flag)])
     \<and> (\<forall>resp. send e c = Response resp \<and> status_code resp \<noteq> 200
           \<longrightarrow> payload = JObj [(''apollo_status'', JStr ''error''),
                              (''status_code'', JInt (status_code resp)),
                              (''is_logged_in'', JBool False)])"
  by (auto simp: check_status_def Let_def split: http_outcome.splits sum.splits)

text \<open>
  C7, witness: a remote side that times out.
\<close>

theorem check_status_never_raises_witness:
  "snd (check_status timeout_remote) = Return (status_error ''timed out'')
   \<and> status_error ''timed out'' = JObj [(''apollo_status'', JStr ''error''), (''error'', JStr ''timed out'')]"
proof -
  from check_status_never_raises [of timeout_remote] obtain c payload
    where cs: "check_status timeout_remote = ([c], Return payload)"
      and r: "\<forall>msg. send timeout_remote c = Raises msg \<longrightarrow> payload = status_error msg"
    by blast
  have "send timeout_remote c = Raises ''timed out''"
    by (simp add: timeout_remote_def always_def)
  with r have "payload = status_error ''timed out''" by blast
  with cs show ?thesis by (simp add: status_error_def)
qed

section \<open>The webhook's unknown action\<close>

text \<open>
  C8. When the \<^verbatim>\<open>action\<close> of a webhook request is missing or is none of \<^verbatim>\<open>create_contact\<close>,
  \<^verbatim>\<open>update_contact\<close> and \<^verbatim>\<open>status\<close>, the webhook returns the payload with \<^verbatim>\<open>Unknown action\<close>
  and the three valid actions, and the list of outbound calls is empty.
\<close>

theorem webhook_unknown_action:
  assumes "map_of data ''action'' \<noteq> Some (JStr ''create_contact'')"
    and "map_of data ''action'' \<noteq> Some (JStr ''update_contact'')"
    and "map_of data ''action'' \<noteq> Some (JStr ''status'')"
  shows "n8n_webhook e data =
           ([], Return (JObj [(''error'', JStr ''Unknown action''),
                              (''available'', JArr [JStr ''create_contact'', JStr ''update_contact'', JStr ''status''])]))"
  using assms by (simp add: n8n_webhook_def unknown_action_def)

text \<open>
  C8, witness: the action \<^verbatim>\<open>frobnicate\<close>, and a request without action.
\<close>

theorem webhook_unknown_action_witness:
  "map_of [(''action'', JStr ''frobnicate'')] ''action'' \<noteq> Some (JStr ''create_contact'')
   \<and> map_of [(''action'', JStr ''frobnicate'')] ''action'' \<noteq> Some (JStr ''update_contact'')
   \<and> map_of [(''action'', JStr ''frobnicate'')] ''action'' \<noteq> Some (JStr ''status'')
   \<and> n8n_webhook jane_remote [(''action'', JStr ''frobnicate'')] =
        ([], Return (JObj [(''error'', JStr ''Unknown action''),
                           (''available'', JArr [JStr ''create_contact'', JStr ''update_contact'', JStr ''status''])]))
   \<and> map_of ([] :: dict) ''action'' = None
   \<and> n8n_webhook jane_remote [] =
        ([], Return (JObj [(''error'', JStr ''Unknown action''),
                           (''available'', JArr [JStr ''create_contact'', JStr ''update_contact'', JStr ''status''])]))"
proof -
  have h: "map_of [(''action'', JStr ''frobnicate'')] ''action'' \<noteq> Some (JStr ''create_contact'')"
    "map_of [(''action'', JStr ''frobnicate'')] ''action'' \<noteq> Some (JStr ''update_contact'')"
    "map_of [(''action'', JStr ''frobnicate'')] ''action'' \<noteq> Some (JStr ''status'')"
    by simp_all
  have n: "map_of ([] :: dict) ''action'' \<noteq> Some (JStr ''create_contact'')"
    "map_of ([] :: dict) ''action'' \<noteq> Some (JStr ''update_contact'')"
    "map_of ([] :: dict) ''action'' \<noteq> Some (JStr ''status'')"
    by simp_all
  from webhook_unknown_action [OF h, of jane_remote] webhook_unknown_action [OF n, of jane_remote] h
  show ?thesis by simp
qed

section \<open>Empty strings in an update\<close>

text \<open>
  C9. An update request behaves as the same request with its empty-string fields left
  out. An empty-string field puts no key into the outbound body, every outbound call
  carries exactly that body, and \<^verbatim>\<open>updated_fields\<close> lists exactly its keys. A request whose
  four optional fields are all empty or absent fails with status 400 and no outbound call.
\<close>

theorem update_blank_as_absent:
  "update_contact e r = update_contact e (drop_blanks r)
   \<and> (upd_email r = Some [] \<longrightarrow> ''email'' \<notin> fst ` set (update_body r))
   \<and> (upd_title r = Some [] \<longrightarrow> ''title'' \<notin> fst ` set (update_body r))
   \<and> (upd_phone r = Some [] \<longrightarrow> ''direct_phone'' \<notin> fst ` set (update_body r))
   \<and> (linkedin_url r = Some [] \<longrightarrow> ''linkedin_url'' \<notin> fst ` set (update_body r))
   \<and> (\<forall>c \<in> set (fst (update_contact e r)). json_body c = Some (JObj (update_body r)))
   \<and> (\<forall>payload. snd (update_contact e r) = Return payload \<longrightarrow>
         response_field (Return payload) ''updated_fields''
           = Some (JArr (map (\<lambda>(k, v). JStr k) (update_body r))))
   \<and> (\<not> truthy_str (upd_email r) \<and> \<not> truthy_str (upd_title r) \<and> \<not> truthy_str (upd_phone r)
        \<and> \<not> truthy_str (linkedin_url r)
      \<longrightarrow> update_contact e r = ([], HTTPException 400 ''No fields to update''))"
proof -
  have same: "update_contact e r = update_contact e (drop_blanks r)"
  proof -
    have "contact_id (drop_blanks r) = contact_id r" by (simp add: drop_blanks_def)
    then show ?thesis by (simp add: update_contact_def update_body_drop_blanks Let_def)
  qed
  have keys: "upd_email r = Some [] \<longrightarrow> ''email'' \<notin> fst ` set (update_body r)"
    "upd_title r = Some [] \<longrightarrow> ''title'' \<notin> fst ` set (update_body r)"
    "upd_phone r = Some [] \<longrightarrow> ''direct_phone'' \<notin> fst ` set (update_body r)"
    "linkedin_url r = Some [] \<longrightarrow> ''linkedin_url'' \<notin> fst ` set (update_body r)"
    by (simp_all add: update_body_keys)
  have rej: "update_body r = []"
    if "\<not> truthy_str (upd_email r)" "\<not> truthy_str (upd_title r)" "\<not> truthy_str (upd_phone r)"
       "\<not> truthy_str (linkedin_url r)"
    using that by (simp add: update_body_def set_if_falsy)
  have fields: "\<forall>payload. snd (update_contact e r) = Return payload \<longrightarrow>
         response_field (Return payload) ''updated_fields''
           = Some (JArr (map (\<lambda>(k, v). JStr k) (update_body r)))"
    using update_contact_payload by blast
  have rej': "\<not> truthy_str (upd_email r) \<and> \<not> truthy_str (upd_title r) \<and> \<not> truthy_str (upd_phone r)
        \<and> \<not> truthy_str (linkedin_url r)
      \<longrightarrow> update_contact e r = ([], HTTPException 400 ''No fields to update'')"
    using rej by (simp add: update_contact_rejects)
  show ?thesis
    by (intro conjI same keys update_contact_calls_body fields rej')
qed

text \<open>
  C9, witness: the request with four empty strings, and a request with an empty email
  and a title.
\<close>

theorem update_blank_as_absent_witness:
  "(\<not> truthy_str (upd_email update_all_empty) \<and> \<not> truthy_str (upd_title update_all_empty)
     \<and> \<not> truthy_str (upd_phone update_all_empty) \<and> \<not> truthy_str (linkedin_url update_all_empty))
   \<and> update_contact jane_remote update_all_empty = ([], HTTPException 400 ''No fields to update'')
   \<and> drop_blanks update_all_empty = update_nothing
   \<and> update_contact jane_remote update_all_empty = update_contact jane_remote update_nothing
   \<and> upd_email update_title_blank_email = Some []
   \<and> ''email'' \<notin> fst ` set (update_body update_title_blank_email)
   \<and> update_body update_title_blank_email = [(''title'', JStr ''CTO'')]
   \<and> map json_body (fst (update_contact jane_remote update_title_blank_email))
        = [Some (JObj [(''title'', JStr ''CTO'')])]
   \<and> snd (update_contact jane_remote update_title_blank_email)
        = Return (JObj [(''success'', JBool True), (''contact_id'', JStr ''123''),
                        (''updated_fields'', JArr [JStr ''title'']), (''raw_response'', JObj jane)])"
proof -
  have a: "\<not> truthy_str (upd_email update_all_empty) \<and> \<not> truthy_str (upd_title update_all_empty)
     \<and> \<not> truthy_str (upd_phone update_all_empty) \<and> \<not> truthy_str (linkedin_url update_all_empty)"
    by (simp add: update_all_empty_def)
  have d: "drop_blanks update_all_empty = update_nothing"
    by (simp add: drop_blanks_def update_all_empty_def update_nothing_def)
  have b: "upd_email update_title_blank_email = Some []"
    "update_body update_title_blank_email = [(''title'', JStr ''CTO'')]"
    by (simp_all add: update_title_blank_email_def update_body_def)
  have s: "snd (update_contact jane_remote update_title_blank_email)
        = Return (JObj [(''success'', JBool True), (''contact_id'', JStr ''123''),
                        (''updated_fields'', JArr [JStr ''title'']), (''raw_response'', JObj jane)])"
    by (simp add: sample_defs handler_defs)
  note t = update_blank_as_absent [of jane_remote update_all_empty]
  from t a have 1: "update_contact jane_remote update_all_empty = ([], HTTPException 400 ''No fields to update'')"
    by blast
  from t have 2: "update_contact jane_remote update_all_empty = update_contact jane_remote update_nothing"
    unfolding d by blast
  note t' = update_blank_as_absent [of jane_remote update_title_blank_email]
  from t' b(1) have 3: "''email'' \<notin> fst ` set (update_body update_title_blank_email)"
    by blast
  from t' have "\<forall>c \<in> set (fst (update_contact jane_remote update_title_blank_email)).
         json_body c = Some (JObj [(''title'', JStr ''CTO'')])"
    unfolding b(2) by blast
  moreover obtain c where "fst (update_contact jane_remote update_title_blank_email) = [c]"
    using update_contact_call [of update_title_blank_email jane_remote] by (auto simp: b(2))
  ultimately have 4: "map json_body (fst (update_contact jane_remote update_title_blank_email))
        = [Some (JObj [(''title'', JStr ''CTO'')])]"
    by simp
  show ?thesis
    by (intro conjI a [THEN conjunct1] a [THEN conjunct2, THEN conjunct1]
          a [THEN conjunct2, THEN conjunct2, THEN conjunct1]
          a [THEN conjunct2, THEN conjunct2, THEN conjunct2] 1 d 2 b 3 4 s)
qed

end
